theory Spec2Isabelle
  imports Main "HOL-Library.Word"
begin

section \<open>Python values, strings and dictionaries\<close>

text \<open>
  The client of \<^verbatim>\<open>urlbox/urlbox_client.py\<close> receives a dictionary of rendering options.
  Its keys are strings; its values are the scalars the docstrings show
  (\<^verbatim>\<open>{"url": "http://example.com/", "format": "png", "full_page": True, "width": 300}\<close>).
  A Python \<^verbatim>\<open>str\<close> is a sequence of code points; here it is a \<open>string\<close> whose characters
  are the code points U+0000 to U+00FF, so that \<open>length\<close> counts what Python's \<^verbatim>\<open>len\<close>
  counts. Bytes are \<open>8 word\<close>.
\<close>

type_synonym byte = "8 word"

datatype pyval = PyNone | PyBool bool | PyInt int | PyStr string

text \<open>
  A \<^verbatim>\<open>dict\<close> keeps its keys in insertion order, and \<^verbatim>\<open>urlencode\<close> reads them in that
  order: an association list, whose keys are distinct in every dictionary Python can build.
\<close>

type_synonym options = "(string \<times> pyval) list"

definition contains :: "string \<Rightarrow> options \<Rightarrow> bool" where
  \<comment> \<open>\<^verbatim>\<open>k in options\<close>\<close>
  "contains k d = (k \<in> set (map fst d))"

definition dict_get :: "options \<Rightarrow> string \<Rightarrow> pyval \<Rightarrow> pyval" where
  \<comment> \<open>\<^verbatim>\<open>options.get(k, default)\<close>\<close>
  "dict_get d k dflt = (case map_of d k of None \<Rightarrow> dflt | Some v \<Rightarrow> v)"

fun setitem :: "options \<Rightarrow> string \<Rightarrow> pyval \<Rightarrow> options" where
  \<comment> \<open>\<^verbatim>\<open>options[k] = v\<close>: an existing key keeps its place, a new key goes last\<close>
  "setitem [] k v = [(k, v)]"
| "setitem ((k', v') # d) k v = (if k' = k then (k, v) # d else (k', v') # setitem d k v)"

subsection \<open>\<^verbatim>\<open>str\<close> methods\<close>

definition isspace :: "char \<Rightarrow> bool" where
  \<comment> \<open>the code points below U+0100 for which \<^verbatim>\<open>str.isspace\<close> holds\<close>
  "isspace c = (let n = (of_char c :: nat)
                in (9 \<le> n \<and> n \<le> 13) \<or> (28 \<le> n \<and> n \<le> 32) \<or> n = 133 \<or> n = 160)"

definition lstrip :: "string \<Rightarrow> string" where
  "lstrip s = dropWhile isspace s"

definition rstrip :: "string \<Rightarrow> string" where
  "rstrip s = rev (dropWhile isspace (rev s))"

definition strip :: "string \<Rightarrow> string" where
  \<comment> \<open>\<^verbatim>\<open>s.strip()\<close>\<close>
  "strip s = rstrip (lstrip s)"

definition rstrip_chars :: "string \<Rightarrow> string \<Rightarrow> string" where
  \<comment> \<open>\<^verbatim>\<open>s.rstrip(chars)\<close>\<close>
  "rstrip_chars s chars = rev (dropWhile (\<lambda>c. c \<in> set chars) (rev s))"

definition startswith :: "string \<Rightarrow> string \<Rightarrow> bool" where
  \<comment> \<open>\<^verbatim>\<open>s.startswith(p)\<close>\<close>
  "startswith s p = (take (length p) s = p)"

definition replace_char :: "char \<Rightarrow> char \<Rightarrow> string \<Rightarrow> string" where
  \<comment> \<open>\<^verbatim>\<open>s.replace(a, b)\<close> for one-character \<^verbatim>\<open>a\<close> and \<^verbatim>\<open>b\<close>\<close>
  "replace_char a b s = map (\<lambda>c. if c = a then b else c) s"

fun join :: "string \<Rightarrow> string list \<Rightarrow> string" where
  \<comment> \<open>\<^verbatim>\<open>sep.join(xs)\<close>\<close>
  "join sep [] = []"
| "join sep [x] = x"
| "join sep (x # y # ys) = x @ sep @ join sep (y # ys)"

definition str_encode :: "string \<Rightarrow> byte list" where
  \<comment> \<open>\<^verbatim>\<open>str.encode(s)\<close>: UTF-8, one byte below U+0080 and two from there to U+00FF\<close>
  "str_encode s = concat (map (\<lambda>c. let n = (of_char c :: nat)
                                   in if n < 128 then [of_nat n]
                                      else [of_nat (192 + n div 64), of_nat (128 + n mod 64)]) s)"

fun str_nat :: "nat \<Rightarrow> string" where
  "str_nat n = (if n < 10 then [''0123456789'' ! n]
                else str_nat (n div 10) @ [''0123456789'' ! (n mod 10)])"

declare str_nat.simps [simp del]

fun py_str :: "pyval \<Rightarrow> string" where
  \<comment> \<open>\<^verbatim>\<open>str(v)\<close>, which is also what an f-string field \<^verbatim>\<open>{v}\<close> prints\<close>
  "py_str PyNone = ''None''"
| "py_str (PyBool b) = (if b then ''True'' else ''False'')"
| "py_str (PyInt i) = (if i < 0 then ''-'' @ str_nat (nat (- i)) else str_nat (nat i))"
| "py_str (PyStr s) = s"

subsection \<open>\<^verbatim>\<open>urllib.parse.urlencode\<close>\<close>

text \<open>
  The standard library's \<^verbatim>\<open>urlencode(query)\<close> with its defaults: every key and value goes
  through \<^verbatim>\<open>quote_plus(str(x), safe='')\<close>, the pairs are joined with \<^verbatim>\<open>&\<close>.
  \<^verbatim>\<open>quote\<close> keeps the bytes of \<^verbatim>\<open>_ALWAYS_SAFE\<close> and of \<^verbatim>\<open>safe\<close> and writes every other byte of
  the UTF-8 encoding as \<^verbatim>\<open>%XX\<close> in upper-case hexadecimal.
\<close>

definition ALWAYS_SAFE :: string where
  "ALWAYS_SAFE = ''ABCDEFGHIJKLMNOPQRSTUVWXYZabcdefghijklmnopqrstuvwxyz0123456789_.-~''"

definition quoter :: "string \<Rightarrow> byte \<Rightarrow> string" where
  "quoter safe b =
     (if char_of (unat b) \<in> set (ALWAYS_SAFE @ safe) \<and> unat b < 128 then [char_of (unat b)]
      else [CHR ''%'', ''0123456789ABCDEF'' ! (unat b div 16), ''0123456789ABCDEF'' ! (unat b mod 16)])"

definition quote :: "string \<Rightarrow> string \<Rightarrow> string" where
  "quote s safe = concat (map (quoter safe) (str_encode s))"

definition quote_plus :: "string \<Rightarrow> string \<Rightarrow> string" where
  "quote_plus s safe =
     (if CHR '' '' \<notin> set s then quote s safe
      else replace_char (CHR '' '') (CHR ''+'') (quote s (safe @ '' '')))"

definition urlencode :: "options \<Rightarrow> string" where
  "urlencode query =
     join ''&'' (map (\<lambda>(k, v). quote_plus k [] @ ''='' @ quote_plus (py_str v) []) query)"

subsection \<open>\<^verbatim>\<open>hexdigest\<close> and \<^verbatim>\<open>json\<close>\<close>

definition hexdigest :: "byte list \<Rightarrow> string" where
  \<comment> \<open>the digest bytes in lower-case hexadecimal, two characters a byte\<close>
  "hexdigest bs = concat (map (\<lambda>b. [''0123456789abcdef'' ! (unat b div 16),
                                      ''0123456789abcdef'' ! (unat b mod 16)]) bs)"

text \<open>
  A JSON document, as \<^verbatim>\<open>json.dumps\<close> writes the options and \<^verbatim>\<open>json.loads\<close> reads them
  back: an object of scalars, members in the dictionary's order.
\<close>

datatype jvalue = Jnull | Jtrue | Jfalse | Jnumber int | Jstring string

type_synonym jobject = "(string \<times> jvalue) list"

fun dumps_value :: "pyval \<Rightarrow> jvalue" where
  "dumps_value PyNone = Jnull"
| "dumps_value (PyBool b) = (if b then Jtrue else Jfalse)"
| "dumps_value (PyInt i) = Jnumber i"
| "dumps_value (PyStr s) = Jstring s"

fun loads_value :: "jvalue \<Rightarrow> pyval" where
  "loads_value Jnull = PyNone"
| "loads_value Jtrue = PyBool True"
| "loads_value Jfalse = PyBool False"
| "loads_value (Jnumber i) = PyInt i"
| "loads_value (Jstring s) = PyStr s"

definition json_dumps :: "options \<Rightarrow> jobject" where
  "json_dumps d = map (\<lambda>(k, v). (k, dumps_value v)) d"

definition json_loads :: "jobject \<Rightarrow> options" where
  "json_loads j = map (\<lambda>(k, v). (k, loads_value v)) j"

section \<open>The client\<close>

datatype error =
    KeyError string
  | InvalidUrlException string
  | Exception string
  | AttributeError string
  | TypeError string
  | RequestException string

datatype http_method = GET | HEAD | POST

record request =
  req_method :: http_method
  req_url :: string
  req_headers :: "(string \<times> string) list"
  req_json :: "jobject option"

text \<open>
  What the module imports and does not define: the validator \<^verbatim>\<open>validators.url\<close>, the
  keyed hash \<^verbatim>\<open>hmac.new(key, msg, sha1).digest()\<close>, and the transport behind
  \<^verbatim>\<open>requests.get\<close>, \<^verbatim>\<open>requests.head\<close> and \<^verbatim>\<open>requests.post\<close>, which answers a request with
  a response or raises.
\<close>

record 'r library =
  validators_url :: "string \<Rightarrow> bool"
  hmac_sha1 :: "byte list \<Rightarrow> byte list \<Rightarrow> byte list"
  transport :: "request \<Rightarrow> error + 'r"

record client =
  api_key :: string
  api_secret :: "string option"
  base_api_url :: string

definition BASE_API_URL :: string where
  "BASE_API_URL = ''https://api.urlbox.io/v1/''"

definition POST_END_POINT :: string where
  "POST_END_POINT = ''render''"

definition init_base_api_url :: "string option \<Rightarrow> string" where
  "init_base_api_url api_host_name =
     (case api_host_name of None \<Rightarrow> BASE_API_URL
      | Some h \<Rightarrow> ''https://'' @ h @ ''/'')"

definition UrlboxClient :: "string \<Rightarrow> string option \<Rightarrow> string option \<Rightarrow> client" where
  \<comment> \<open>\<^verbatim>\<open>__init__(self, *, api_key, api_secret=None, api_host_name=None)\<close>\<close>
  "UrlboxClient key secret api_host_name =
     \<lparr>api_key = key, api_secret = secret, base_api_url = init_base_api_url api_host_name\<rparr>"

text \<open>
  A call ends with a value or an exception, leaves the caller's dictionary as it has
  mutated it, and has sent the requests it lists.
\<close>

record 'a outcome =
  result :: "error + 'a"
  options_after :: options
  requests_made :: "request list"

datatype 'r retval = UrlString string | Response 'r

definition raise :: "error \<Rightarrow> options \<Rightarrow> 'a outcome" where
  "raise e d = \<lparr>result = Inl e, options_after = d, requests_made = []\<rparr>"

definition MISSING_TARGET :: error where
  "MISSING_TARGET = KeyError ''Missing 'url' or 'html' key in options''"

definition MISSING_WEBHOOK :: error where
  "MISSING_WEBHOOK = KeyError ''Missing 'webhook_url' key in options''"

definition MISSING_SECRET :: error where
  "MISSING_SECRET =
     Exception ''Missing api_secret when initialising client. Required for authorised post request.''"

definition prepend_schema :: "string \<Rightarrow> string" where
  "prepend_schema url = (if \<not> startswith url ''http'' then ''http://'' @ url else url)"

definition valid_url :: "'r library \<Rightarrow> string \<Rightarrow> bool" where
  "valid_url lib url = (validators_url lib url = True)"

definition token :: "'r library \<Rightarrow> client \<Rightarrow> string \<Rightarrow> error + string" where
  "token lib self url_encoded_options =
     (case api_secret self of
        None \<Rightarrow> Inl (TypeError ''descriptor 'encode' requires a 'str' object'')
      | Some secret \<Rightarrow>
          Inr (rstrip_chars (hexdigest (hmac_sha1 lib (str_encode secret)
                                           (str_encode url_encoded_options)))
                 [CHR 0x0A]))"

definition send :: "'r library \<Rightarrow> request \<Rightarrow> options \<Rightarrow> ('r \<Rightarrow> 'a) \<Rightarrow> 'a outcome" where
  \<comment> \<open>one call of \<^verbatim>\<open>requests\<close>: the request goes out, the answer or the exception comes back\<close>
  "send lib req d ret =
     \<lparr>result = (case transport lib req of Inl e \<Rightarrow> Inl e | Inr r \<Rightarrow> Inr (ret r)),
      options_after = d, requests_made = [req]\<rparr>"

definition get_unauthenticated ::
  "'r library \<Rightarrow> client \<Rightarrow> options \<Rightarrow> pyval \<Rightarrow> string \<Rightarrow> 'r retval outcome" where
  "get_unauthenticated lib self d format url_encoded_options =
     send lib \<lparr>req_method = GET,
               req_url = base_api_url self @ api_key self @ ''/'' @ py_str format
                           @ ''?'' @ url_encoded_options,
               req_headers = [], req_json = None\<rparr> d Response"

definition get_authenticated ::
  "'r library \<Rightarrow> client \<Rightarrow> options \<Rightarrow> pyval \<Rightarrow> string \<Rightarrow> 'r retval outcome" where
  "get_authenticated lib self d format url_encoded_options =
     (case token lib self url_encoded_options of
        Inl e \<Rightarrow> raise e d
      | Inr t \<Rightarrow>
          send lib \<lparr>req_method = GET,
                    req_url = base_api_url self @ api_key self @ ''/'' @ t @ ''/''
                                @ py_str format @ ''?'' @ url_encoded_options,
                    req_headers = [], req_json = None\<rparr> d Response)"

text \<open>
  The block that \<^verbatim>\<open>get\<close> (lines 51 to 59), \<^verbatim>\<open>head\<close> (97 to 105) and \<^verbatim>\<open>post\<close> (144 to 152)
  each contain, letter for letter: the target is stripped, given a scheme, stored back,
  and only then validated. \<^verbatim>\<open>url.strip()\<close> exists on a \<^verbatim>\<open>str\<close> only.
\<close>

definition check_url :: "'r library \<Rightarrow> options \<Rightarrow> error option \<times> options" where
  "check_url lib d =
     (if contains ''url'' d then
        (case dict_get d ''url'' PyNone of
           PyStr url \<Rightarrow>
             (let url_stripped = strip url;
                  url_parsed = prepend_schema url_stripped;
                  d' = setitem d ''url'' (PyStr url_parsed)
              in if \<not> valid_url lib url_parsed
                 then (Some (InvalidUrlException url_parsed), d')
                 else (None, d'))
         | _ \<Rightarrow> (Some (AttributeError ''object has no attribute 'strip' ''), d))
      else (None, d))"

definition get :: "'r library \<Rightarrow> client \<Rightarrow> options \<Rightarrow> bool \<Rightarrow> 'r retval outcome" where
  "get lib self d to_string =
     (if \<not> contains ''html'' d \<and> \<not> contains ''url'' d then raise MISSING_TARGET d
      else case check_url lib d of
        (Some e, d1) \<Rightarrow> raise e d1
      | (None, d1) \<Rightarrow>
          (let format = dict_get d1 ''format'' (PyStr ''png'');
               d2 = setitem d1 ''format'' format;
               url_encoded_options = urlencode d2
           in if to_string then
                \<lparr>result = Inr (UrlString (base_api_url self @ api_key self @ ''/''
                                             @ py_str format @ ''?'' @ url_encoded_options)),
                 options_after = d2, requests_made = []\<rparr>
              else if api_secret self = None
                then get_unauthenticated lib self d2 format url_encoded_options
                else get_authenticated lib self d2 format url_encoded_options))"

definition head :: "'r library \<Rightarrow> client \<Rightarrow> options \<Rightarrow> 'r outcome" where
  "head lib self d =
     (if \<not> contains ''html'' d \<and> \<not> contains ''url'' d then raise MISSING_TARGET d
      else case check_url lib d of
        (Some e, d1) \<Rightarrow> raise e d1
      | (None, d1) \<Rightarrow>
          (let format = dict_get d1 ''format'' (PyStr ''png'');
               d2 = setitem d1 ''format'' format;
               url_encoded_options = urlencode d2
           in send lib \<lparr>req_method = HEAD,
                         req_url = base_api_url self @ api_key self @ ''/'' @ py_str format
                                     @ ''?'' @ url_encoded_options,
                         req_headers = [], req_json = None\<rparr> d2 (\<lambda>r. r)))"

definition post :: "'r library \<Rightarrow> client \<Rightarrow> options \<Rightarrow> 'r outcome" where
  "post lib self d =
     (if \<not> contains ''html'' d \<and> \<not> contains ''url'' d then raise MISSING_TARGET d
      else if \<not> contains ''webhook_url'' d then raise MISSING_WEBHOOK d
      else case api_secret self of
        None \<Rightarrow> raise MISSING_SECRET d
      | Some secret \<Rightarrow>
          (case check_url lib d of
             (Some e, d1) \<Rightarrow> raise e d1
           | (None, d1) \<Rightarrow>
               (let format = dict_get d1 ''format'' (PyStr ''png'');
                    d2 = setitem d1 ''format'' format
                in send lib \<lparr>req_method = POST,
                              req_url = base_api_url self @ POST_END_POINT,
                              req_headers = [(''Content-Type'', ''application/json''),
                                             (''Authorization'', ''Bearer '' @ secret)],
                              req_json = Some (json_dumps (json_loads (json_dumps d2)))\<rparr>
                     d2 (\<lambda>r. r))))"

subsection \<open>The validation phase\<close>

text \<open>
  A target is valid when one of the keys \<^verbatim>\<open>url\<close> and \<^verbatim>\<open>html\<close> is present and the value
  of \<^verbatim>\<open>url\<close>, if there is one, is a string that passes \<^verbatim>\<open>_valid_url\<close> once stripped and
  given a scheme: the inputs on which lines 48 to 59 raise nothing.
\<close>

definition valid_target :: "'r library \<Rightarrow> options \<Rightarrow> bool" where
  "valid_target lib d =
     ((contains ''html'' d \<or> contains ''url'' d) \<and>
      (case map_of d ''url'' of
         None \<Rightarrow> True
       | Some (PyStr u) \<Rightarrow> valid_url lib (prepend_schema (strip u))
       | Some _ \<Rightarrow> False))"

text \<open>
  The dictionary as lines 56 and 62 leave it: the target normalised in its place, the
  format stored under \<^verbatim>\<open>format\<close>.
\<close>

definition stored_url :: "options \<Rightarrow> options" where
  "stored_url d =
     (case map_of d ''url'' of
        Some (PyStr u) \<Rightarrow> setitem d ''url'' (PyStr (prepend_schema (strip u)))
      | _ \<Rightarrow> d)"

definition prepared :: "options \<Rightarrow> options" where
  "prepared d = setitem (stored_url d) ''format'' (dict_get (stored_url d) ''format'' (PyStr ''png''))"

text \<open>
  An instance of the imported library, to run the client on concrete inputs: a validator
  that wants a scheme and no white space, a keyed function that stands in for HMAC-SHA1,
  a transport that answers every request.
\<close>

definition example_library :: "unit library" where
  "example_library =
     \<lparr>validators_url = (\<lambda>u. (startswith u ''http://'' \<or> startswith u ''https://'')
                              \<and> list_all (\<lambda>c. \<not> isspace c) u),
      hmac_sha1 = (\<lambda>key msg. take 20 (key @ msg @ replicate 20 0)),
      transport = (\<lambda>req. Inr ())\<rparr>"

section \<open>Properties\<close>

lemma json_loads_dumps: "json_loads (json_dumps d) = d"
proof -
  have "loads_value (dumps_value v) = v" for v
    by (cases v) simp_all
  then show ?thesis
    by (induction d) (auto simp: json_loads_def json_dumps_def)
qed

subsection \<open>Dictionaries and strings\<close>

lemma map_of_setitem: "map_of (setitem d k v) k' = (if k' = k then Some v else map_of d k')"
  by (induction d k v rule: setitem.induct) auto

lemma contains_iff: "contains k d \<longleftrightarrow> map_of d k \<noteq> None"
  by (simp add: contains_def map_of_eq_None_iff)

lemma contains_setitem: "contains k' (setitem d k v) \<longleftrightarrow> k' = k \<or> contains k' d"
  by (simp add: contains_iff map_of_setitem)

lemma setitem_same: "map_of d k = Some v \<Longrightarrow> setitem d k v = d"
  by (induction d k v rule: setitem.induct) (auto split: if_splits)

lemma dict_get_setitem:
  "dict_get (setitem d k v) k' dflt = (if k' = k then v else dict_get d k' dflt)"
  by (simp add: dict_get_def map_of_setitem)

lemma dict_get_stored_url:
  "k \<noteq> ''url'' \<Longrightarrow> dict_get (stored_url d) k dflt = dict_get d k dflt"
  by (simp add: stored_url_def dict_get_setitem split: option.splits pyval.splits)

lemma check_url_absent:
  "\<not> contains ''url'' d \<Longrightarrow> check_url lib d = (None, d)"
  by (simp add: check_url_def)

lemma check_url_str:
  "map_of d ''url'' = Some (PyStr u) \<Longrightarrow>
   check_url lib d =
     (if valid_url lib (prepend_schema (strip u)) then None
      else Some (InvalidUrlException (prepend_schema (strip u))),
      setitem d ''url'' (PyStr (prepend_schema (strip u))))"
  by (simp add: check_url_def contains_iff dict_get_def Let_def)

lemma check_url_valid:
  assumes "valid_target lib d"
  shows "check_url lib d = (None, stored_url d)"
proof (cases "map_of d ''url''")
  case None
  then show ?thesis
    by (simp add: check_url_absent contains_iff stored_url_def)
next
  case (Some v)
  with assms obtain u where u: "v = PyStr u" and ok: "valid_url lib (prepend_schema (strip u))"
    by (cases v) (auto simp: valid_target_def)
  from Some u ok show ?thesis
    by (simp add: check_url_str stored_url_def)
qed

lemma valid_target_has_target:
  "valid_target lib d \<Longrightarrow> (\<not> contains ''html'' d \<and> \<not> contains ''url'' d) = False"
  by (simp add: valid_target_def)

lemma rstrip_chars_id:
  assumes "s = [] \<or> last s \<notin> set chars"
  shows "rstrip_chars s chars = s"
proof (cases s rule: rev_cases)
  case Nil
  then show ?thesis by (simp add: rstrip_chars_def)
next
  case (snoc ys y)
  with assms show ?thesis by (simp add: rstrip_chars_def)
qed

lemma hexdigest_last:
  "hexdigest bs = [] \<or> last (hexdigest bs) \<in> set ''0123456789abcdef''"
proof (cases bs rule: rev_cases)
  case Nil
  then show ?thesis by (simp add: hexdigest_def)
next
  case (snoc ys y)
  have "unat y mod 16 < length ''0123456789abcdef''" by simp
  then have "''0123456789abcdef'' ! (unat y mod 16) \<in> set ''0123456789abcdef''"
    by (rule nth_mem)
  with snoc show ?thesis by (simp add: hexdigest_def)
qed

lemma rstrip_hexdigest: "rstrip_chars (hexdigest bs) [CHR 0x0A] = hexdigest bs"
proof (rule rstrip_chars_id)
  from hexdigest_last [of bs]
  show "hexdigest bs = [] \<or> last (hexdigest bs) \<notin> set [CHR 0x0A]"
    by auto
qed

lemma token_secret:
  "api_secret self = Some secret \<Longrightarrow>
   token lib self q = Inr (hexdigest (hmac_sha1 lib (str_encode secret) (str_encode q)))"
  by (simp add: token_def rstrip_hexdigest)

lemma get_valid:
  assumes "valid_target lib d"
  shows "get lib self d to_string =
     (let format = dict_get d ''format'' (PyStr ''png'');
          url_encoded_options = urlencode (prepared d)
      in if to_string then
           \<lparr>result = Inr (UrlString (base_api_url self @ api_key self @ ''/''
                                        @ py_str format @ ''?'' @ url_encoded_options)),
            options_after = prepared d, requests_made = []\<rparr>
         else if api_secret self = None
           then get_unauthenticated lib self (prepared d) format url_encoded_options
           else get_authenticated lib self (prepared d) format url_encoded_options)"
  unfolding get_def valid_target_has_target [OF assms] check_url_valid [OF assms]
  by (simp add: prepared_def Let_def dict_get_stored_url)

lemma head_valid:
  assumes "valid_target lib d"
  shows "head lib self d =
     send lib \<lparr>req_method = HEAD,
               req_url = base_api_url self @ api_key self @ ''/''
                           @ py_str (dict_get d ''format'' (PyStr ''png''))
                           @ ''?'' @ urlencode (prepared d),
               req_headers = [], req_json = None\<rparr> (prepared d) (\<lambda>r. r)"
  unfolding head_def valid_target_has_target [OF assms] check_url_valid [OF assms]
  by (simp add: prepared_def Let_def dict_get_stored_url)

lemma post_valid:
  assumes "valid_target lib d" and "contains ''webhook_url'' d"
    and "api_secret self = Some secret"
  shows "post lib self d =
     send lib \<lparr>req_method = POST,
               req_url = base_api_url self @ POST_END_POINT,
               req_headers = [(''Content-Type'', ''application/json''),
                              (''Authorization'', ''Bearer '' @ secret)],
               req_json = Some (json_dumps (prepared d))\<rparr> (prepared d) (\<lambda>r. r)"
  unfolding post_def valid_target_has_target [OF assms(1)] check_url_valid [OF assms(1)]
  using assms(2,3)
  by (simp add: prepared_def Let_def json_loads_dumps)

lemma post_no_webhook:
  assumes "contains ''html'' d \<or> contains ''url'' d" and "\<not> contains ''webhook_url'' d"
  shows "post lib self d = raise MISSING_WEBHOOK d"
  using assms by (auto simp: post_def)

lemma post_no_secret:
  assumes "contains ''html'' d \<or> contains ''url'' d" and "contains ''webhook_url'' d"
    and "api_secret self = None"
  shows "post lib self d = raise MISSING_SECRET d"
  using assms by (auto simp: post_def)

lemma get_invalid:
  assumes "map_of d ''url'' = Some (PyStr u)"
    and "\<not> valid_url lib (prepend_schema (strip u))"
  shows "get lib self d to_string =
           raise (InvalidUrlException (prepend_schema (strip u)))
             (setitem d ''url'' (PyStr (prepend_schema (strip u))))"
proof -
  from assms(1) have "contains ''url'' d"
    by (simp add: contains_iff)
  with assms(2) show ?thesis
    by (simp add: get_def check_url_str [OF assms(1)])
qed

lemma head_invalid:
  assumes "map_of d ''url'' = Some (PyStr u)"
    and "\<not> valid_url lib (prepend_schema (strip u))"
  shows "head lib self d =
           raise (InvalidUrlException (prepend_schema (strip u)))
             (setitem d ''url'' (PyStr (prepend_schema (strip u))))"
proof -
  from assms(1) have "contains ''url'' d"
    by (simp add: contains_iff)
  with assms(2) show ?thesis
    by (simp add: head_def check_url_str [OF assms(1)])
qed

lemma post_invalid:
  assumes "map_of d ''url'' = Some (PyStr u)"
    and "\<not> valid_url lib (prepend_schema (strip u))"
    and "contains ''webhook_url'' d" and "api_secret self = Some secret"
  shows "post lib self d =
           raise (InvalidUrlException (prepend_schema (strip u)))
             (setitem d ''url'' (PyStr (prepend_schema (strip u))))"
proof -
  from assms(1) have "contains ''url'' d"
    by (simp add: contains_iff)
  with assms(2,3,4) show ?thesis
    by (simp add: post_def check_url_str [OF assms(1)])
qed

lemma valid_target_str:
  assumes "map_of d ''url'' = Some (PyStr u)" and "valid_url lib (prepend_schema (strip u))"
  shows "valid_target lib d"
  using assms by (simp add: valid_target_def contains_iff)

lemma map_of_prepared_url:
  assumes "map_of d ''url'' = Some (PyStr u)"
  shows "map_of (prepared d) ''url'' = Some (PyStr (prepend_schema (strip u)))"
  using assms by (simp add: prepared_def stored_url_def map_of_setitem)

lemma map_of_prepared_format:
  "map_of (prepared d) ''format'' = Some (dict_get d ''format'' (PyStr ''png''))"
  by (simp add: prepared_def map_of_setitem dict_get_stored_url)

lemma options_after_send [simp]: "options_after (send lib req d ret) = d"
  by (simp add: send_def)

lemma requests_made_send [simp]: "requests_made (send lib req d ret) = [req]"
  by (simp add: send_def)

lemma options_after_raise [simp]: "options_after (raise e d) = d"
  by (simp add: raise_def)

lemma requests_made_raise [simp]: "requests_made (raise e d) = []"
  by (simp add: raise_def)

lemma result_raise [simp]: "result (raise e d) = Inl e"
  by (simp add: raise_def)

lemma get_options_after_valid:
  assumes "valid_target lib d"
  shows "options_after (get lib self d to_string) = prepared d"
  by (cases "api_secret self")
     (simp_all add: get_valid [OF assms] Let_def get_unauthenticated_def
        get_authenticated_def token_def)

subsection \<open>What each call stores and when it raises\<close>

lemma prepend_schema_eq:
  "prepend_schema t = (if startswith t ''http'' then t else ''http://'' @ t)"
  by (simp add: prepend_schema_def)

lemma get_stores_url:
  assumes "map_of d ''url'' = Some (PyStr u)"
  shows "map_of (options_after (get lib self d to_string)) ''url''
           = Some (PyStr (prepend_schema (strip u)))"
proof (cases "valid_url lib (prepend_schema (strip u))")
  case True
  with assms have "valid_target lib d"
    by (rule valid_target_str)
  then show ?thesis
    by (simp add: get_options_after_valid map_of_prepared_url [OF assms])
next
  case False
  with assms show ?thesis
    by (simp add: get_invalid map_of_setitem)
qed

lemma head_stores_url:
  assumes "map_of d ''url'' = Some (PyStr u)"
  shows "map_of (options_after (head lib self d)) ''url''
           = Some (PyStr (prepend_schema (strip u)))"
proof (cases "valid_url lib (prepend_schema (strip u))")
  case True
  with assms have "valid_target lib d"
    by (rule valid_target_str)
  then show ?thesis
    by (simp add: head_valid map_of_prepared_url [OF assms])
next
  case False
  with assms show ?thesis
    by (simp add: head_invalid map_of_setitem)
qed

lemma post_stores_url:
  assumes "map_of d ''url'' = Some (PyStr u)"
    and "contains ''webhook_url'' d" and "api_secret self = Some secret"
  shows "map_of (options_after (post lib self d)) ''url''
           = Some (PyStr (prepend_schema (strip u)))"
proof (cases "valid_url lib (prepend_schema (strip u))")
  case True
  with assms(1) have "valid_target lib d"
    by (rule valid_target_str)
  then show ?thesis
    using assms(2,3) by (simp add: post_valid map_of_prepared_url [OF assms(1)])
next
  case False
  with assms show ?thesis
    by (simp add: post_invalid map_of_setitem)
qed

lemma rstrip_snoc: "\<not> isspace y \<Longrightarrow> rstrip (ys @ [y]) = ys @ [y]"
  by (simp add: rstrip_def)

lemma strip_unchanged:
  assumes "startswith u ''http''" and "\<not> isspace (last u)"
  shows "strip u = u"
proof -
  from assms(1) obtain t where u: "u = CHR ''h'' # t"
    by (cases u) (auto simp: startswith_def)
  have "\<not> isspace (CHR ''h'')"
    by (simp add: isspace_def)
  with u have l: "lstrip u = u"
    by (simp add: lstrip_def)
  from u have "u \<noteq> []"
    by simp
  then have "butlast u @ [last u] = u"
    by simp
  with rstrip_snoc [OF assms(2), of "butlast u"] have "rstrip u = u"
    by simp
  with l show ?thesis
    by (simp add: strip_def)
qed

lemma prepend_schema_unchanged: "startswith u ''http'' \<Longrightarrow> prepend_schema u = u"
  by (simp add: prepend_schema_def)

lemma post_keeps_or_stores_url:
  assumes "map_of d ''url'' = Some (PyStr u)"
  shows "map_of (options_after (post lib self d)) ''url'' = Some (PyStr u)
         \<or> map_of (options_after (post lib self d)) ''url''
             = Some (PyStr (prepend_schema (strip u)))"
proof -
  from assms have c: "contains ''url'' d"
    by (simp add: contains_iff)
  show ?thesis
  proof (cases "contains ''webhook_url'' d")
    case False
    with c assms show ?thesis
      by (simp add: post_no_webhook)
  next
    case True
    show ?thesis
    proof (cases "api_secret self")
      case None
      with c True assms show ?thesis
        by (simp add: post_no_secret)
    next
      case (Some secret)
      with True assms show ?thesis
        by (simp add: post_stores_url)
    qed
  qed
qed

lemma validation_raises:
  assumes "\<not> valid_target lib d"
  shows "\<exists>e d'. get lib self d to_string = raise e d'"
    and "\<exists>e d'. head lib self d = raise e d'"
    and "\<exists>e d'. post lib self d = raise e d'"
  using assms
  by (auto simp: valid_target_def get_def head_def post_def check_url_def contains_iff
        dict_get_def Let_def split: option.splits pyval.splits)

section \<open>The claims\<close>

text \<open>
  C1. With a valid target, a configured \<^verbatim>\<open>api_secret\<close> and \<^verbatim>\<open>to_string\<close> false, \<^verbatim>\<open>get\<close> sends
  one GET to \<^verbatim>\<open>{base_api_url}{api_key}/{token}/{format}?{query}\<close>, where the query is the
  percent-encoded dictionary and the token is the hexadecimal HMAC-SHA1 digest of the
  UTF-8 bytes of the query under the UTF-8 bytes of the secret. The token depends on the
  secret and the encoded query only.
\<close>

theorem get_signed_request:
  assumes "valid_target lib d" and "api_secret self = Some secret"
  shows "requests_made (get lib self d False) =
           [\<lparr>req_method = GET,
             req_url = base_api_url self @ api_key self @ ''/''
                         @ hexdigest (hmac_sha1 lib (str_encode secret)
                                        (str_encode (urlencode (prepared d))))
                         @ ''/'' @ py_str (dict_get d ''format'' (PyStr ''png''))
                         @ ''?'' @ urlencode (prepared d),
             req_headers = [], req_json = None\<rparr>]
         \<and> (\<forall>self' q. api_secret self' = api_secret self \<longrightarrow>
                token lib self' q = token lib self q)"
proof
  show "requests_made (get lib self d False) =
           [\<lparr>req_method = GET,
             req_url = base_api_url self @ api_key self @ ''/''
                         @ hexdigest (hmac_sha1 lib (str_encode secret)
                                        (str_encode (urlencode (prepared d))))
                         @ ''/'' @ py_str (dict_get d ''format'' (PyStr ''png''))
                         @ ''?'' @ urlencode (prepared d),
             req_headers = [], req_json = None\<rparr>]"
    using assms(2)
    by (simp add: get_valid [OF assms(1)] Let_def get_authenticated_def token_secret)
  show "\<forall>self' q. api_secret self' = api_secret self \<longrightarrow>
          token lib self' q = token lib self q"
    by (simp add: token_def)
qed

theorem get_signed_request_witness:
  "valid_target example_library [(''url'', PyStr '' example.com ''), (''width'', PyInt 300)]
   \<and> api_secret (UrlboxClient ''K'' (Some ''S'') None) = Some ''S''
   \<and> requests_made (get example_library (UrlboxClient ''K'' (Some ''S'') None)
                       [(''url'', PyStr '' example.com ''), (''width'', PyInt 300)] False) =
       [\<lparr>req_method = GET,
         req_url = ''https://api.urlbox.io/v1/K/5375726c3d687474702533412532462532466578/png?url=http%3A%2F%2Fexample.com&width=300&format=png'',
         req_headers = [], req_json = None\<rparr>]"
proof -
  let ?d = "[(''url'', PyStr '' example.com ''), (''width'', PyInt 300)]"
  let ?c = "UrlboxClient ''K'' (Some ''S'') None"
  have h1: "valid_target example_library ?d"
    by code_simp
  have h2: "api_secret ?c = Some ''S''"
    by (simp add: UrlboxClient_def)
  have e: "base_api_url ?c @ api_key ?c @ ''/''
             @ hexdigest (hmac_sha1 example_library (str_encode ''S'')
                            (str_encode (urlencode (prepared ?d))))
             @ ''/'' @ py_str (dict_get ?d ''format'' (PyStr ''png''))
             @ ''?'' @ urlencode (prepared ?d)
           = ''https://api.urlbox.io/v1/K/5375726c3d687474702533412532462532466578/png?url=http%3A%2F%2Fexample.com&width=300&format=png''"
    by code_simp
  from get_signed_request [OF h1 h2, THEN conjunct1]
  have "requests_made (get example_library ?c ?d False) =
       [\<lparr>req_method = GET,
         req_url = ''https://api.urlbox.io/v1/K/5375726c3d687474702533412532462532466578/png?url=http%3A%2F%2Fexample.com&width=300&format=png'',
         req_headers = [], req_json = None\<rparr>]"
    unfolding e .
  with h1 h2 show ?thesis by blast
qed

text \<open>
  C2. When the dictionary has neither the key \<^verbatim>\<open>url\<close> nor the key \<^verbatim>\<open>html\<close>, each of \<^verbatim>\<open>get\<close>,
  \<^verbatim>\<open>head\<close> and \<^verbatim>\<open>post\<close> raises the missing-target \<^verbatim>\<open>KeyError\<close> and sends no request.
\<close>

theorem missing_target_raises:
  assumes "\<not> contains ''url'' d" and "\<not> contains ''html'' d"
  shows "result (get lib self d to_string) = Inl MISSING_TARGET
         \<and> requests_made (get lib self d to_string) = []
         \<and> result (head lib self d) = Inl MISSING_TARGET
         \<and> requests_made (head lib self d) = []
         \<and> result (post lib self d) = Inl MISSING_TARGET
         \<and> requests_made (post lib self d) = []"
  using assms by (simp add: get_def head_def post_def)

theorem missing_target_raises_witness:
  "\<not> contains ''url'' [(''width'', PyInt 300)] \<and> \<not> contains ''html'' [(''width'', PyInt 300)]
   \<and> result (get example_library (UrlboxClient ''K'' None None) [(''width'', PyInt 300)] False)
       = Inl MISSING_TARGET
   \<and> requests_made (get example_library (UrlboxClient ''K'' None None) [(''width'', PyInt 300)] False) = []
   \<and> result (head example_library (UrlboxClient ''K'' None None) [(''width'', PyInt 300)])
       = Inl MISSING_TARGET
   \<and> requests_made (head example_library (UrlboxClient ''K'' None None) [(''width'', PyInt 300)]) = []
   \<and> result (post example_library (UrlboxClient ''K'' None None) [(''width'', PyInt 300)])
       = Inl MISSING_TARGET
   \<and> requests_made (post example_library (UrlboxClient ''K'' None None) [(''width'', PyInt 300)]) = []"
proof -
  have h1: "\<not> contains ''url'' [(''width'', PyInt 300)]"
    by (simp add: contains_def)
  have h2: "\<not> contains ''html'' [(''width'', PyInt 300)]"
    by (simp add: contains_def)
  from missing_target_raises [OF h1 h2] h1 h2 show ?thesis
    by blast
qed

text \<open>
  C3. With a valid target and \<^verbatim>\<open>to_string\<close> true, \<^verbatim>\<open>get\<close> sends nothing and returns the string
  \<^verbatim>\<open>{base_api_url}{api_key}/{format}?{query}\<close>, whether or not the client has a secret. A client
  with key K and no secret, given \<^verbatim>\<open>url\<close> = http://example.com and \<^verbatim>\<open>format\<close> = png in that
  order, returns https://api.urlbox.io/v1/K/png?url=http%3A%2F%2Fexample.com&format=png,
  provided the validator accepts http://example.com.
\<close>

theorem get_to_string_unsigned:
  assumes "valid_target lib d"
  shows "get lib self d True =
           \<lparr>result = Inr (UrlString (base_api_url self @ api_key self @ ''/''
                                       @ py_str (dict_get d ''format'' (PyStr ''png''))
                                       @ ''?'' @ urlencode (prepared d))),
            options_after = prepared d, requests_made = []\<rparr>
         \<and> (validators_url lib ''http://example.com'' \<longrightarrow>
              get lib (UrlboxClient ''K'' None None)
                [(''url'', PyStr ''http://example.com''), (''format'', PyStr ''png'')] True =
              \<lparr>result = Inr (UrlString
                 ''https://api.urlbox.io/v1/K/png?url=http%3A%2F%2Fexample.com&format=png''),
               options_after = [(''url'', PyStr ''http://example.com''), (''format'', PyStr ''png'')],
               requests_made = []\<rparr>)"
proof (intro conjI impI)
  show "get lib self d True =
           \<lparr>result = Inr (UrlString (base_api_url self @ api_key self @ ''/''
                                       @ py_str (dict_get d ''format'' (PyStr ''png''))
                                       @ ''?'' @ urlencode (prepared d))),
            options_after = prepared d, requests_made = []\<rparr>"
    by (simp add: get_valid [OF assms] Let_def)
next
  let ?d = "[(''url'', PyStr ''http://example.com''), (''format'', PyStr ''png'')]"
  let ?c = "UrlboxClient ''K'' None None"
  assume v: "validators_url lib ''http://example.com''"
  have n: "prepend_schema (strip ''http://example.com'') = ''http://example.com''"
    by code_simp
  have "valid_target lib ?d"
    by (simp add: valid_target_def contains_def n valid_url_def v)
  then have g: "get lib ?c ?d True =
           \<lparr>result = Inr (UrlString (base_api_url ?c @ api_key ?c @ ''/''
                                       @ py_str (dict_get ?d ''format'' (PyStr ''png''))
                                       @ ''?'' @ urlencode (prepared ?d))),
            options_after = prepared ?d, requests_made = []\<rparr>"
    by (simp add: get_valid Let_def)
  have p: "prepared ?d = ?d"
    by code_simp
  have u: "base_api_url ?c @ api_key ?c @ ''/'' @ py_str (dict_get ?d ''format'' (PyStr ''png''))
             @ ''?'' @ urlencode ?d
           = ''https://api.urlbox.io/v1/K/png?url=http%3A%2F%2Fexample.com&format=png''"
    by code_simp
  show "get lib ?c ?d True =
              \<lparr>result = Inr (UrlString
                 ''https://api.urlbox.io/v1/K/png?url=http%3A%2F%2Fexample.com&format=png''),
               options_after = ?d, requests_made = []\<rparr>"
    using g unfolding p u .
qed

theorem get_to_string_unsigned_witness:
  "valid_target example_library [(''url'', PyStr ''example.com '')]
   \<and> validators_url example_library ''http://example.com''
   \<and> get example_library (UrlboxClient ''K'' (Some ''S'') None)
        [(''url'', PyStr ''example.com '')] True =
       \<lparr>result = Inr (UrlString
          ''https://api.urlbox.io/v1/K/png?url=http%3A%2F%2Fexample.com&format=png''),
        options_after = [(''url'', PyStr ''http://example.com''), (''format'', PyStr ''png'')],
        requests_made = []\<rparr>
   \<and> get example_library (UrlboxClient ''K'' None None)
        [(''url'', PyStr ''http://example.com''), (''format'', PyStr ''png'')] True =
       \<lparr>result = Inr (UrlString
          ''https://api.urlbox.io/v1/K/png?url=http%3A%2F%2Fexample.com&format=png''),
        options_after = [(''url'', PyStr ''http://example.com''), (''format'', PyStr ''png'')],
        requests_made = []\<rparr>"
proof -
  let ?d = "[(''url'', PyStr ''example.com '')]"
  let ?c = "UrlboxClient ''K'' (Some ''S'') None"
  have h: "valid_target example_library ?d"
    by code_simp
  have v: "validators_url example_library ''http://example.com''"
    by code_simp
  have p: "prepared ?d = [(''url'', PyStr ''http://example.com''), (''format'', PyStr ''png'')]"
    by code_simp
  have u: "base_api_url ?c @ api_key ?c @ ''/'' @ py_str (dict_get ?d ''format'' (PyStr ''png''))
             @ ''?'' @ urlencode [(''url'', PyStr ''http://example.com''), (''format'', PyStr ''png'')]
           = ''https://api.urlbox.io/v1/K/png?url=http%3A%2F%2Fexample.com&format=png''"
    by code_simp
  note t = get_to_string_unsigned [OF h, of ?c]
  from t [THEN conjunct1] have a: "get example_library ?c ?d True =
       \<lparr>result = Inr (UrlString
          ''https://api.urlbox.io/v1/K/png?url=http%3A%2F%2Fexample.com&format=png''),
        options_after = [(''url'', PyStr ''http://example.com''), (''format'', PyStr ''png'')],
        requests_made = []\<rparr>"
    unfolding p u .
  from t [THEN conjunct2, rule_format, OF v] h v a show ?thesis
    by blast
qed

text \<open>
  C4. With a valid target, \<^verbatim>\<open>head\<close> sends one HEAD request to
  \<^verbatim>\<open>{base_api_url}{api_key}/{format}?{query}\<close>. The URL has no token segment, and the requests
  sent do not depend on the client's \<^verbatim>\<open>api_secret\<close>.
\<close>

theorem head_never_signed:
  assumes "valid_target lib d"
  shows "requests_made (head lib self d) =
           [\<lparr>req_method = HEAD,
             req_url = base_api_url self @ api_key self @ ''/''
                         @ py_str (dict_get d ''format'' (PyStr ''png''))
                         @ ''?'' @ urlencode (prepared d),
             req_headers = [], req_json = None\<rparr>]
         \<and> requests_made (head lib (self\<lparr>api_secret := secret\<rparr>) d) =
             requests_made (head lib self d)"
  by (simp add: head_valid [OF assms])

theorem head_never_signed_witness:
  "valid_target example_library [(''html'', PyStr ''<b>hi</b>''), (''format'', PyStr ''pdf'')]
   \<and> requests_made (head example_library (UrlboxClient ''K'' (Some ''S'') None)
                       [(''html'', PyStr ''<b>hi</b>''), (''format'', PyStr ''pdf'')]) =
       [\<lparr>req_method = HEAD,
         req_url = ''https://api.urlbox.io/v1/K/pdf?html=%3Cb%3Ehi%3C%2Fb%3E&format=pdf'',
         req_headers = [], req_json = None\<rparr>]"
proof -
  let ?d = "[(''html'', PyStr ''<b>hi</b>''), (''format'', PyStr ''pdf'')]"
  let ?c = "UrlboxClient ''K'' (Some ''S'') None"
  have h: "valid_target example_library ?d"
    by code_simp
  have u: "base_api_url ?c @ api_key ?c @ ''/'' @ py_str (dict_get ?d ''format'' (PyStr ''png''))
             @ ''?'' @ urlencode (prepared ?d)
           = ''https://api.urlbox.io/v1/K/pdf?html=%3Cb%3Ehi%3C%2Fb%3E&format=pdf''"
    by code_simp
  from head_never_signed [OF h, of ?c, THEN conjunct1]
  have "requests_made (head example_library ?c ?d) =
       [\<lparr>req_method = HEAD,
         req_url = ''https://api.urlbox.io/v1/K/pdf?html=%3Cb%3Ehi%3C%2Fb%3E&format=pdf'',
         req_headers = [], req_json = None\<rparr>]"
    unfolding u .
  with h show ?thesis by blast
qed

text \<open>
  C5, as stated, fails. A dictionary without \<^verbatim>\<open>webhook_url\<close> that also lacks a target makes
  \<^verbatim>\<open>post\<close> raise the missing-target error, not the missing-webhook error; a client without a
  secret whose dictionary lacks \<^verbatim>\<open>webhook_url\<close> gets the missing-webhook error, not the
  missing-secret one. The guards of lines 133 to 142 run in that order.
\<close>

theorem post_error_order_counterexample:
  "\<not> contains ''webhook_url'' [(''width'', PyInt 300)]
   \<and> result (post example_library (UrlboxClient ''K'' (Some ''S'') None) [(''width'', PyInt 300)])
       = Inl MISSING_TARGET
   \<and> MISSING_TARGET \<noteq> MISSING_WEBHOOK
   \<and> api_secret (UrlboxClient ''K'' None None) = None
   \<and> result (post example_library (UrlboxClient ''K'' None None)
                [(''url'', PyStr ''http://example.com'')])
       = Inl MISSING_WEBHOOK
   \<and> MISSING_WEBHOOK \<noteq> MISSING_SECRET"
  by (simp add: post_def contains_def UrlboxClient_def MISSING_TARGET_def MISSING_WEBHOOK_def
        MISSING_SECRET_def)

text \<open>
  C5, amended. With a target present, \<^verbatim>\<open>post\<close> raises the missing-webhook error when
  \<^verbatim>\<open>webhook_url\<close> is absent; with a target and \<^verbatim>\<open>webhook_url\<close> present, it raises the
  missing-secret error when the client has no \<^verbatim>\<open>api_secret\<close>; with a valid target,
  \<^verbatim>\<open>webhook_url\<close> and a secret, it sends exactly one POST to \<^verbatim>\<open>{base_api_url}render\<close> with the
  headers Content-Type: application/json and Authorization: Bearer secret, and the
  dictionary, as normalised and defaulted, as its JSON body.
\<close>

theorem post_checks_then_request:
  "((contains ''html'' d \<or> contains ''url'' d) \<and> \<not> contains ''webhook_url'' d \<longrightarrow>
      result (post lib self d) = Inl MISSING_WEBHOOK \<and> requests_made (post lib self d) = [])
   \<and> ((contains ''html'' d \<or> contains ''url'' d) \<and> contains ''webhook_url'' d
        \<and> api_secret self = None \<longrightarrow>
      result (post lib self d) = Inl MISSING_SECRET \<and> requests_made (post lib self d) = [])
   \<and> (valid_target lib d \<and> contains ''webhook_url'' d \<and> api_secret self = Some secret \<longrightarrow>
      requests_made (post lib self d) =
        [\<lparr>req_method = POST,
          req_url = base_api_url self @ ''render'',
          req_headers = [(''Content-Type'', ''application/json''),
                         (''Authorization'', ''Bearer '' @ secret)],
          req_json = Some (json_dumps (prepared d))\<rparr>])"
proof (intro conjI impI)
  assume "(contains ''html'' d \<or> contains ''url'' d) \<and> \<not> contains ''webhook_url'' d"
  then have "post lib self d = raise MISSING_WEBHOOK d"
    by (simp add: post_no_webhook)
  then show "result (post lib self d) = Inl MISSING_WEBHOOK"
    and "requests_made (post lib self d) = []"
    by simp_all
next
  assume "(contains ''html'' d \<or> contains ''url'' d) \<and> contains ''webhook_url'' d
            \<and> api_secret self = None"
  then have "post lib self d = raise MISSING_SECRET d"
    by (simp add: post_no_secret)
  then show "result (post lib self d) = Inl MISSING_SECRET"
    and "requests_made (post lib self d) = []"
    by simp_all
next
  assume "valid_target lib d \<and> contains ''webhook_url'' d \<and> api_secret self = Some secret"
  then show "requests_made (post lib self d) =
        [\<lparr>req_method = POST,
          req_url = base_api_url self @ ''render'',
          req_headers = [(''Content-Type'', ''application/json''),
                         (''Authorization'', ''Bearer '' @ secret)],
          req_json = Some (json_dumps (prepared d))\<rparr>]"
    by (simp add: post_valid POST_END_POINT_def)
qed

theorem post_checks_then_request_witness:
  "((contains ''html'' [(''html'', PyStr ''<p>'')] \<or> contains ''url'' [(''html'', PyStr ''<p>'')])
      \<and> \<not> contains ''webhook_url'' [(''html'', PyStr ''<p>'')])
   \<and> result (post example_library (UrlboxClient ''K'' None None) [(''html'', PyStr ''<p>'')])
       = Inl MISSING_WEBHOOK
   \<and> ((contains ''html'' [(''html'', PyStr ''<p>''), (''webhook_url'', PyStr ''http://me.io/hook'')]
        \<or> contains ''url'' [(''html'', PyStr ''<p>''), (''webhook_url'', PyStr ''http://me.io/hook'')])
      \<and> contains ''webhook_url'' [(''html'', PyStr ''<p>''), (''webhook_url'', PyStr ''http://me.io/hook'')]
      \<and> api_secret (UrlboxClient ''K'' None None) = None)
   \<and> result (post example_library (UrlboxClient ''K'' None None)
                [(''html'', PyStr ''<p>''), (''webhook_url'', PyStr ''http://me.io/hook'')])
       = Inl MISSING_SECRET
   \<and> (valid_target example_library
         [(''url'', PyStr ''example.com''), (''webhook_url'', PyStr ''http://me.io/hook'')]
      \<and> contains ''webhook_url''
         [(''url'', PyStr ''example.com''), (''webhook_url'', PyStr ''http://me.io/hook'')]
      \<and> api_secret (UrlboxClient ''K'' (Some ''S'') None) = Some ''S'')
   \<and> requests_made (post example_library (UrlboxClient ''K'' (Some ''S'') None)
         [(''url'', PyStr ''example.com''), (''webhook_url'', PyStr ''http://me.io/hook'')]) =
        [\<lparr>req_method = POST,
          req_url = ''https://api.urlbox.io/v1/render'',
          req_headers = [(''Content-Type'', ''application/json''),
                         (''Authorization'', ''Bearer S'')],
          req_json = Some [(''url'', Jstring ''http://example.com''),
                           (''webhook_url'', Jstring ''http://me.io/hook''),
                           (''format'', Jstring ''png'')]\<rparr>]"
proof -
  let ?d1 = "[(''html'', PyStr ''<p>'')]"
  let ?d2 = "[(''html'', PyStr ''<p>''), (''webhook_url'', PyStr ''http://me.io/hook'')]"
  let ?d3 = "[(''url'', PyStr ''example.com''), (''webhook_url'', PyStr ''http://me.io/hook'')]"
  let ?c0 = "UrlboxClient ''K'' None None"
  let ?c1 = "UrlboxClient ''K'' (Some ''S'') None"
  have h1: "(contains ''html'' ?d1 \<or> contains ''url'' ?d1) \<and> \<not> contains ''webhook_url'' ?d1"
    by (simp add: contains_def)
  have h2: "(contains ''html'' ?d2 \<or> contains ''url'' ?d2) \<and> contains ''webhook_url'' ?d2
              \<and> api_secret ?c0 = None"
    by (simp add: contains_def UrlboxClient_def)
  have h3: "valid_target example_library ?d3 \<and> contains ''webhook_url'' ?d3
              \<and> api_secret ?c1 = Some ''S''"
    by code_simp
  have e: "base_api_url ?c1 @ ''render'' = ''https://api.urlbox.io/v1/render''"
    by code_simp
  have j: "json_dumps (prepared ?d3) =
             [(''url'', Jstring ''http://example.com''),
              (''webhook_url'', Jstring ''http://me.io/hook''),
              (''format'', Jstring ''png'')]"
    by code_simp
  have a1: "result (post example_library ?c0 ?d1) = Inl MISSING_WEBHOOK"
    using post_checks_then_request [of ?d1 example_library ?c0] h1 by blast
  have a2: "result (post example_library ?c0 ?d2) = Inl MISSING_SECRET"
    using post_checks_then_request [of ?d2 example_library ?c0] h2 by blast
  have "requests_made (post example_library ?c1 ?d3) =
        [\<lparr>req_method = POST,
          req_url = base_api_url ?c1 @ ''render'',
          req_headers = [(''Content-Type'', ''application/json''),
                         (''Authorization'', ''Bearer '' @ ''S'')],
          req_json = Some (json_dumps (prepared ?d3))\<rparr>]"
    using post_checks_then_request [of ?d3 example_library ?c1 "''S''"] h3 by blast
  then have a3: "requests_made (post example_library ?c1 ?d3) =
        [\<lparr>req_method = POST,
          req_url = ''https://api.urlbox.io/v1/render'',
          req_headers = [(''Content-Type'', ''application/json''),
                         (''Authorization'', ''Bearer S'')],
          req_json = Some [(''url'', Jstring ''http://example.com''),
                           (''webhook_url'', Jstring ''http://me.io/hook''),
                           (''format'', Jstring ''png'')]\<rparr>]"
    unfolding e j by simp
  from h1 h2 h3 a1 a2 a3 show ?thesis
    by blast
qed

text \<open>
  C6, as stated, fails for \<^verbatim>\<open>post\<close>: without \<^verbatim>\<open>webhook_url\<close> it raises before line 144, and
  the schemeless target stays as the caller wrote it.
\<close>

theorem post_skips_normalisation_counterexample:
  "map_of [(''url'', PyStr ''example.com'')] ''url'' = Some (PyStr ''example.com'')
   \<and> map_of (options_after (post example_library (UrlboxClient ''K'' (Some ''S'') None)
                               [(''url'', PyStr ''example.com'')])) ''url''
       = Some (PyStr ''example.com'')
   \<and> prepend_schema (strip ''example.com'') = ''http://example.com''"
proof -
  have "prepend_schema (strip ''example.com'') = ''http://example.com''"
    by code_simp
  moreover have "options_after (post example_library (UrlboxClient ''K'' (Some ''S'') None)
                   [(''url'', PyStr ''example.com'')]) = [(''url'', PyStr ''example.com'')]"
    by (simp add: post_def contains_def)
  ultimately show ?thesis
    by simp
qed

text \<open>
  C6, amended. When the dictionary holds a string under \<^verbatim>\<open>url\<close>, \<^verbatim>\<open>get\<close> and \<^verbatim>\<open>head\<close>, and
  \<^verbatim>\<open>post\<close> once \<^verbatim>\<open>webhook_url\<close> is present and the client has a secret, store under \<^verbatim>\<open>url\<close>
  the stripped value, prefixed with http:// if and only if the stripped value does not start
  with http.
\<close>

theorem url_normalised:
  assumes "map_of d ''url'' = Some (PyStr u)"
  shows "map_of (options_after (get lib self d to_string)) ''url''
           = Some (PyStr (if startswith (strip u) ''http'' then strip u
                          else ''http://'' @ strip u))
         \<and> map_of (options_after (head lib self d)) ''url''
           = Some (PyStr (if startswith (strip u) ''http'' then strip u
                          else ''http://'' @ strip u))
         \<and> (contains ''webhook_url'' d \<and> api_secret self \<noteq> None \<longrightarrow>
              map_of (options_after (post lib self d)) ''url''
                = Some (PyStr (if startswith (strip u) ''http'' then strip u
                               else ''http://'' @ strip u)))"
proof (intro conjI impI)
  show "map_of (options_after (get lib self d to_string)) ''url''
           = Some (PyStr (if startswith (strip u) ''http'' then strip u
                          else ''http://'' @ strip u))"
    using get_stores_url [OF assms] by (simp only: prepend_schema_eq)
  show "map_of (options_after (head lib self d)) ''url''
           = Some (PyStr (if startswith (strip u) ''http'' then strip u
                          else ''http://'' @ strip u))"
    using head_stores_url [OF assms] by (simp only: prepend_schema_eq)
next
  assume "contains ''webhook_url'' d \<and> api_secret self \<noteq> None"
  then obtain secret where w: "contains ''webhook_url'' d" and s: "api_secret self = Some secret"
    by auto
  show "map_of (options_after (post lib self d)) ''url''
                = Some (PyStr (if startswith (strip u) ''http'' then strip u
                               else ''http://'' @ strip u))"
    using post_stores_url [OF assms w s] by (simp only: prepend_schema_eq)
qed

theorem url_normalised_witness:
  "map_of [(''url'', PyStr '' example.com ''), (''webhook_url'', PyStr ''http://me.io/hook'')] ''url''
     = Some (PyStr '' example.com '')
   \<and> map_of (options_after (get example_library (UrlboxClient ''K'' (Some ''S'') None)
        [(''url'', PyStr '' example.com ''), (''webhook_url'', PyStr ''http://me.io/hook'')] False))
        ''url'' = Some (PyStr ''http://example.com'')
   \<and> map_of (options_after (head example_library (UrlboxClient ''K'' (Some ''S'') None)
        [(''url'', PyStr '' example.com ''), (''webhook_url'', PyStr ''http://me.io/hook'')]))
        ''url'' = Some (PyStr ''http://example.com'')
   \<and> map_of (options_after (post example_library (UrlboxClient ''K'' (Some ''S'') None)
        [(''url'', PyStr '' example.com ''), (''webhook_url'', PyStr ''http://me.io/hook'')]))
        ''url'' = Some (PyStr ''http://example.com'')"
proof -
  let ?d = "[(''url'', PyStr '' example.com ''), (''webhook_url'', PyStr ''http://me.io/hook'')]"
  let ?c = "UrlboxClient ''K'' (Some ''S'') None"
  have h: "map_of ?d ''url'' = Some (PyStr '' example.com '')"
    by simp
  have w: "contains ''webhook_url'' ?d \<and> api_secret ?c \<noteq> None"
    by (simp add: contains_def UrlboxClient_def)
  have n: "(if startswith (strip '' example.com '') ''http'' then strip '' example.com ''
            else ''http://'' @ strip '' example.com '') = ''http://example.com''"
    by code_simp
  note t = url_normalised [OF h, of example_library ?c False, unfolded n]
  from t w h show ?thesis
    by blast
qed

text \<open>
  C7, as stated, fails: a value that starts with http and ends in a space is stored
  without the space.
\<close>

theorem trailing_space_counterexample:
  "startswith ''http://example.com '' ''http''
   \<and> map_of (options_after (get example_library (UrlboxClient ''K'' None None)
                               [(''url'', PyStr ''http://example.com '')] True)) ''url''
       = Some (PyStr ''http://example.com'')
   \<and> ''http://example.com'' \<noteq> ''http://example.com ''"
proof -
  have "options_after (get example_library (UrlboxClient ''K'' None None)
                         [(''url'', PyStr ''http://example.com '')] True)
        = [(''url'', PyStr ''http://example.com''), (''format'', PyStr ''png'')]"
    by code_simp
  then show ?thesis
    by (simp add: startswith_def)
qed

text \<open>
  C7, amended. For a \<^verbatim>\<open>url\<close> value that starts with http and does not end in white space,
  normalisation changes nothing: after \<^verbatim>\<open>get\<close>, \<^verbatim>\<open>head\<close> or \<^verbatim>\<open>post\<close> the dictionary holds
  under \<^verbatim>\<open>url\<close> the value the caller supplied, and the shared block leaves the whole
  dictionary as it was.
\<close>

theorem http_url_unchanged:
  assumes "map_of d ''url'' = Some (PyStr u)"
    and "startswith u ''http''" and "\<not> isspace (last u)"
  shows "map_of (options_after (get lib self d to_string)) ''url'' = Some (PyStr u)
         \<and> map_of (options_after (head lib self d)) ''url'' = Some (PyStr u)
         \<and> map_of (options_after (post lib self d)) ''url'' = Some (PyStr u)
         \<and> snd (check_url lib d) = d"
proof -
  have n: "prepend_schema (strip u) = u"
    using assms(2,3) by (simp add: strip_unchanged prepend_schema_unchanged)
  have "snd (check_url lib d) = d"
    by (simp add: check_url_str [OF assms(1)] n setitem_same [OF assms(1)])
  with get_stores_url [OF assms(1), of lib self to_string]
    head_stores_url [OF assms(1), of lib self]
    post_keeps_or_stores_url [OF assms(1), of lib self]
  show ?thesis
    by (auto simp: n)
qed

theorem http_url_unchanged_witness:
  "map_of [(''url'', PyStr ''https://example.com/a b'')] ''url''
     = Some (PyStr ''https://example.com/a b'')
   \<and> startswith ''https://example.com/a b'' ''http''
   \<and> \<not> isspace (last ''https://example.com/a b'')
   \<and> map_of (options_after (get example_library (UrlboxClient ''K'' None None)
                [(''url'', PyStr ''https://example.com/a b'')] False)) ''url''
       = Some (PyStr ''https://example.com/a b'')
   \<and> map_of (options_after (head example_library (UrlboxClient ''K'' None None)
                [(''url'', PyStr ''https://example.com/a b'')])) ''url''
       = Some (PyStr ''https://example.com/a b'')
   \<and> map_of (options_after (post example_library (UrlboxClient ''K'' None None)
                [(''url'', PyStr ''https://example.com/a b'')])) ''url''
       = Some (PyStr ''https://example.com/a b'')"
proof -
  have h1: "map_of [(''url'', PyStr ''https://example.com/a b'')] ''url''
              = Some (PyStr ''https://example.com/a b'')"
    by simp
  have h2: "startswith ''https://example.com/a b'' ''http''"
    by (simp add: startswith_def)
  have h3: "\<not> isspace (last ''https://example.com/a b'')"
    by (simp add: isspace_def)
  from http_url_unchanged [OF h1 h2 h3, of example_library "UrlboxClient ''K'' None None" False]
    h1 h2 h3
  show ?thesis
    by blast
qed

text \<open>
  C8. When the \<^verbatim>\<open>url\<close> value, stripped and given a scheme, fails \<^verbatim>\<open>_valid_url\<close>, \<^verbatim>\<open>get\<close>
  raises \<^verbatim>\<open>InvalidUrlException\<close> carrying that normalised URL and sends no request.
\<close>

theorem invalid_url_raises:
  assumes "map_of d ''url'' = Some (PyStr u)"
    and "\<not> valid_url lib (prepend_schema (strip u))"
  shows "result (get lib self d to_string) = Inl (InvalidUrlException (prepend_schema (strip u)))
         \<and> requests_made (get lib self d to_string) = []"
  by (simp add: get_invalid [OF assms])

theorem invalid_url_raises_witness:
  "map_of [(''url'', PyStr '' not a url'')] ''url'' = Some (PyStr '' not a url'')
   \<and> \<not> valid_url example_library (prepend_schema (strip '' not a url''))
   \<and> result (get example_library (UrlboxClient ''K'' (Some ''S'') None)
                [(''url'', PyStr '' not a url'')] False)
       = Inl (InvalidUrlException ''http://not a url'')
   \<and> requests_made (get example_library (UrlboxClient ''K'' (Some ''S'') None)
                [(''url'', PyStr '' not a url'')] False) = []"
proof -
  have h1: "map_of [(''url'', PyStr '' not a url'')] ''url'' = Some (PyStr '' not a url'')"
    by simp
  have h2: "\<not> valid_url example_library (prepend_schema (strip '' not a url''))"
    by code_simp
  have n: "prepend_schema (strip '' not a url'') = ''http://not a url''"
    by code_simp
  note t = invalid_url_raises [OF h1 h2, of "UrlboxClient ''K'' (Some ''S'') None" False]
  from t [unfolded n] h1 h2 show ?thesis
    by blast
qed

text \<open>
  C9. When the validation phase raises nothing, the dictionary afterwards holds under
  \<^verbatim>\<open>format\<close> the caller's value if the key was present and png if it was absent: for
  \<^verbatim>\<open>get\<close> and \<^verbatim>\<open>head\<close> on every valid target, for \<^verbatim>\<open>post\<close> when moreover \<^verbatim>\<open>webhook_url\<close> is
  present and the client has a secret.
\<close>

theorem format_defaulted:
  assumes "valid_target lib d"
  shows "map_of (options_after (get lib self d to_string)) ''format''
           = Some (case map_of d ''format'' of None \<Rightarrow> PyStr ''png'' | Some v \<Rightarrow> v)
         \<and> map_of (options_after (head lib self d)) ''format''
           = Some (case map_of d ''format'' of None \<Rightarrow> PyStr ''png'' | Some v \<Rightarrow> v)
         \<and> (contains ''webhook_url'' d \<and> api_secret self \<noteq> None \<longrightarrow>
              map_of (options_after (post lib self d)) ''format''
                = Some (case map_of d ''format'' of None \<Rightarrow> PyStr ''png'' | Some v \<Rightarrow> v))"
proof (intro conjI impI)
  show "map_of (options_after (get lib self d to_string)) ''format''
           = Some (case map_of d ''format'' of None \<Rightarrow> PyStr ''png'' | Some v \<Rightarrow> v)"
    by (simp add: get_options_after_valid [OF assms] map_of_prepared_format dict_get_def)
  show "map_of (options_after (head lib self d)) ''format''
           = Some (case map_of d ''format'' of None \<Rightarrow> PyStr ''png'' | Some v \<Rightarrow> v)"
    by (simp add: head_valid [OF assms] map_of_prepared_format dict_get_def)
next
  assume "contains ''webhook_url'' d \<and> api_secret self \<noteq> None"
  then obtain secret where w: "contains ''webhook_url'' d" and s: "api_secret self = Some secret"
    by auto
  show "map_of (options_after (post lib self d)) ''format''
          = Some (case map_of d ''format'' of None \<Rightarrow> PyStr ''png'' | Some v \<Rightarrow> v)"
    by (simp add: post_valid [OF assms w s] map_of_prepared_format dict_get_def)
qed

theorem format_defaulted_witness:
  "valid_target example_library
     [(''html'', PyStr ''<p>''), (''webhook_url'', PyStr ''http://me.io/hook'')]
   \<and> map_of (options_after (get example_library (UrlboxClient ''K'' (Some ''S'') None)
        [(''html'', PyStr ''<p>''), (''webhook_url'', PyStr ''http://me.io/hook'')] False))
        ''format'' = Some (PyStr ''png'')
   \<and> map_of (options_after (head example_library (UrlboxClient ''K'' (Some ''S'') None)
        [(''html'', PyStr ''<p>''), (''webhook_url'', PyStr ''http://me.io/hook'')]))
        ''format'' = Some (PyStr ''png'')
   \<and> map_of (options_after (post example_library (UrlboxClient ''K'' (Some ''S'') None)
        [(''html'', PyStr ''<p>''), (''webhook_url'', PyStr ''http://me.io/hook'')]))
        ''format'' = Some (PyStr ''png'')
   \<and> valid_target example_library [(''format'', PyStr ''pdf''), (''url'', PyStr ''example.com'')]
   \<and> map_of (options_after (get example_library (UrlboxClient ''K'' None None)
        [(''format'', PyStr ''pdf''), (''url'', PyStr ''example.com'')] True))
        ''format'' = Some (PyStr ''pdf'')"
proof -
  let ?d = "[(''html'', PyStr ''<p>''), (''webhook_url'', PyStr ''http://me.io/hook'')]"
  let ?e = "[(''format'', PyStr ''pdf''), (''url'', PyStr ''example.com'')]"
  let ?c = "UrlboxClient ''K'' (Some ''S'') None"
  have h: "valid_target example_library ?d"
    by code_simp
  have k: "valid_target example_library ?e"
    by code_simp
  have w: "contains ''webhook_url'' ?d \<and> api_secret ?c \<noteq> None"
    by (simp add: contains_def UrlboxClient_def)
  have f: "(case map_of ?d ''format'' of None \<Rightarrow> PyStr ''png'' | Some v \<Rightarrow> v) = PyStr ''png''"
    by simp
  have g: "(case map_of ?e ''format'' of None \<Rightarrow> PyStr ''png'' | Some v \<Rightarrow> v) = PyStr ''pdf''"
    by simp
  note t = format_defaulted [OF h, of ?c False, unfolded f]
  note t' = format_defaulted [OF k, of "UrlboxClient ''K'' None None" True, unfolded g]
  from t t' w h k show ?thesis
    by blast
qed

text \<open>
  C10. In \<^verbatim>\<open>post\<close>, the checks for \<^verbatim>\<open>webhook_url\<close> and for the secret come before the target
  is normalised: with a target present, a missing \<^verbatim>\<open>webhook_url\<close> raises the missing-webhook
  error, and a missing secret the missing-secret error, in both cases with the dictionary
  exactly as the caller supplied it and no request sent, whatever the \<^verbatim>\<open>url\<close> value is.
\<close>

theorem post_checks_before_normalising:
  assumes "contains ''html'' d \<or> contains ''url'' d"
  shows "(\<not> contains ''webhook_url'' d \<longrightarrow>
            result (post lib self d) = Inl MISSING_WEBHOOK
            \<and> options_after (post lib self d) = d
            \<and> requests_made (post lib self d) = [])
         \<and> (contains ''webhook_url'' d \<and> api_secret self = None \<longrightarrow>
            result (post lib self d) = Inl MISSING_SECRET
            \<and> options_after (post lib self d) = d
            \<and> requests_made (post lib self d) = [])"
  using assms by (simp add: post_no_webhook post_no_secret)

theorem post_checks_before_normalising_witness:
  "(contains ''html'' [(''url'', PyStr '' not a url'')]
      \<or> contains ''url'' [(''url'', PyStr '' not a url'')])
   \<and> \<not> contains ''webhook_url'' [(''url'', PyStr '' not a url'')]
   \<and> \<not> valid_url example_library (prepend_schema (strip '' not a url''))
   \<and> result (post example_library (UrlboxClient ''K'' (Some ''S'') None)
                [(''url'', PyStr '' not a url'')]) = Inl MISSING_WEBHOOK
   \<and> options_after (post example_library (UrlboxClient ''K'' (Some ''S'') None)
                [(''url'', PyStr '' not a url'')]) = [(''url'', PyStr '' not a url'')]
   \<and> (contains ''webhook_url'' [(''url'', PyStr '' not a url''), (''webhook_url'', PyStr ''x'')]
        \<and> api_secret (UrlboxClient ''K'' None None) = None)
   \<and> result (post example_library (UrlboxClient ''K'' None None)
                [(''url'', PyStr '' not a url''), (''webhook_url'', PyStr ''x'')])
       = Inl MISSING_SECRET
   \<and> options_after (post example_library (UrlboxClient ''K'' None None)
                [(''url'', PyStr '' not a url''), (''webhook_url'', PyStr ''x'')])
       = [(''url'', PyStr '' not a url''), (''webhook_url'', PyStr ''x'')]"
proof -
  let ?d = "[(''url'', PyStr '' not a url'')]"
  let ?e = "[(''url'', PyStr '' not a url''), (''webhook_url'', PyStr ''x'')]"
  have h1: "contains ''html'' ?d \<or> contains ''url'' ?d"
    by (simp add: contains_def)
  have h2: "\<not> contains ''webhook_url'' ?d"
    by (simp add: contains_def)
  have h3: "\<not> valid_url example_library (prepend_schema (strip '' not a url''))"
    by code_simp
  have k1: "contains ''html'' ?e \<or> contains ''url'' ?e"
    by (simp add: contains_def)
  have k2: "contains ''webhook_url'' ?e \<and> api_secret (UrlboxClient ''K'' None None) = None"
    by (simp add: contains_def UrlboxClient_def)
  note t = post_checks_before_normalising [OF h1, of example_library
             "UrlboxClient ''K'' (Some ''S'') None"]
  note t' = post_checks_before_normalising [OF k1, of example_library
             "UrlboxClient ''K'' None None"]
  from t t' h1 h2 h3 k2 show ?thesis
    by blast
qed

end
